theory Spec2Isabelle
  imports Main
begin

section \<open>The bundle-set command (cmd/spire-server/cli/bundle/set.go)\<close>

text \<open>
  \<open>setCommand.run\<close> is embedded with its collaborators made explicit. The helpers it
  calls that live outside the file (\<open>idutil.NormalizeSpiffeID\<close>, \<open>loadParamData\<close>,
  \<open>pemutil.ParseCertificates\<close>, \<open>env.Println\<close>) and the three registration API calls are
  parameters: each returns \<open>Inl e\<close> for a Go \<open>err != nil\<close> and \<open>Inr v\<close> for \<open>err == nil\<close>.
  The result records, in order, every registration API call the run issued.
\<close>

type_synonym bytes = "char list"

text \<open>The flags of the command (\<open>id\<close> and \<open>path\<close> in the source).\<close>

record setCommand =
  id_flag :: string
  path_flag :: string

text \<open>\<open>registration.FederatedBundle\<close>, the two fields \<open>run\<close> fills in.\<close>

record FederatedBundle =
  DEPRECATEDSpiffeId :: string
  DEPRECATEDCaCerts :: bytes

text \<open>An \<open>x509.Certificate\<close>, of which \<open>run\<close> reads \<open>Raw\<close> only.\<close>

record Certificate =
  Raw :: bytes

record env =
  stdin :: bytes
  Println :: "string \<Rightarrow> string option"

text \<open>The registration client \<open>clients.r\<close>.\<close>

record clients =
  FetchFederatedBundle :: "string \<Rightarrow> string + FederatedBundle"
  UpdateFederatedBundle :: "FederatedBundle \<Rightarrow> string + FederatedBundle"
  CreateFederatedBundle :: "FederatedBundle \<Rightarrow> string + FederatedBundle"

text \<open>The helpers of other packages that \<open>run\<close> calls.\<close>

record helpers =
  NormalizeSpiffeID :: "string \<Rightarrow> string + string"
  loadParamData :: "bytes \<Rightarrow> string \<Rightarrow> string + bytes"
  ParseCertificates :: "bytes \<Rightarrow> string + Certificate list"

datatype api_call =
    CallFetch string
  | CallUpdate FederatedBundle
  | CallCreate FederatedBundle

record run_result =
  calls :: "api_call list"
  printed :: "string list"
  err :: "string option"

definition failed :: "api_call list \<Rightarrow> string \<Rightarrow> run_result" where
  "failed cs e = \<lparr>calls = cs, printed = [], err = Some e\<rparr>"

text \<open>The loop \<open>for _, cert := range certs { caCerts = append(caCerts, cert.Raw...) }\<close>.\<close>

fun appendRaw :: "bytes \<Rightarrow> Certificate list \<Rightarrow> bytes" where
  "appendRaw caCerts [] = caCerts"
| "appendRaw caCerts (cert # certs) = appendRaw (caCerts @ Raw cert) certs"

text \<open>The tail of \<open>run\<close> after the create or the update has answered.\<close>

definition report :: "env \<Rightarrow> api_call list \<Rightarrow> string + FederatedBundle \<Rightarrow> run_result" where
  "report e cs answer =
    (case answer of
       Inl er \<Rightarrow> failed cs er
     | Inr _ \<Rightarrow> \<lparr>calls = cs, printed = [''bundle set.''], err = Println e ''bundle set.''\<rparr>)"

definition run :: "helpers \<Rightarrow> setCommand \<Rightarrow> env \<Rightarrow> clients \<Rightarrow> run_result" where
  "run h c e cl =
    (if id_flag c = [] then failed [] ''id is required''
     else case NormalizeSpiffeID h (id_flag c) of
       Inl er \<Rightarrow> failed [] er
     | Inr nid \<Rightarrow>
        (case loadParamData h (stdin e) (path_flag c) of
          Inl er \<Rightarrow> failed [] (''unable to load bundle data: '' @ er)
        | Inr caCertsData \<Rightarrow>
           (case ParseCertificates h caCertsData of
             Inl er \<Rightarrow> failed [] (''invalid bundle data: '' @ er)
           | Inr certs \<Rightarrow>
              (let bundle = \<lparr>DEPRECATEDSpiffeId = nid,
                             DEPRECATEDCaCerts = appendRaw [] certs\<rparr>
               in case FetchFederatedBundle cl (id_flag c) of
                    Inr _ \<Rightarrow>
                      report e [CallFetch (id_flag c), CallUpdate bundle]
                        (UpdateFederatedBundle cl bundle)
                  | Inl _ \<Rightarrow>
                      report e [CallFetch (id_flag c), CallCreate bundle]
                        (CreateFederatedBundle cl bundle)))))"

text \<open>The run got as far as the fetch: every step before it returned without an error.\<close>

definition reaches_fetch :: "helpers \<Rightarrow> setCommand \<Rightarrow> env \<Rightarrow> bool" where
  "reaches_fetch h c e =
    (id_flag c \<noteq> [] \<and>
     (case NormalizeSpiffeID h (id_flag c) of
        Inl _ \<Rightarrow> False
      | Inr _ \<Rightarrow>
         (case loadParamData h (stdin e) (path_flag c) of
            Inl _ \<Rightarrow> False
          | Inr d \<Rightarrow> \<not> isl (ParseCertificates h d))))"

definition is_update :: "api_call \<Rightarrow> bool" where
  "is_update a = (case a of CallUpdate _ \<Rightarrow> True | _ \<Rightarrow> False)"

definition is_create :: "api_call \<Rightarrow> bool" where
  "is_create a = (case a of CallCreate _ \<Rightarrow> True | _ \<Rightarrow> False)"

subsection \<open>Test fixtures for the command\<close>

definition demo_helpers :: helpers where
  "demo_helpers =
     \<lparr>NormalizeSpiffeID = (\<lambda>s. Inr s),
      loadParamData = (\<lambda>i p. Inr i),
      ParseCertificates = (\<lambda>d. Inr [\<lparr>Raw = d\<rparr>])\<rparr>"

definition demo_env :: env where
  "demo_env = \<lparr>stdin = ''CERT'', Println = (\<lambda>s. None)\<rparr>"

definition demo_cmd :: setCommand where
  "demo_cmd = \<lparr>id_flag = ''spiffe://otherdomain.test'', path_flag = ''''\<rparr>"

text \<open>
  A registration server that does not hold the bundle: the fetch answers with an error,
  a create is accepted and an update would be refused.
\<close>

definition transport_failure :: clients where
  "transport_failure =
     \<lparr>FetchFederatedBundle = (\<lambda>i. Inl ''connection refused''),
      UpdateFederatedBundle = (\<lambda>b. Inl ''update refused: no such bundle''),
      CreateFederatedBundle = (\<lambda>b. Inr b)\<rparr>"

text \<open>
  A registration server that already holds a bundle for the id: the fetch succeeds, an
  update is accepted and a create would be refused.
\<close>

definition known_bundle :: clients where
  "known_bundle =
     \<lparr>FetchFederatedBundle =
        (\<lambda>i. Inr \<lparr>DEPRECATEDSpiffeId = i, DEPRECATEDCaCerts = ''OLD''\<rparr>),
      UpdateFederatedBundle = (\<lambda>b. Inr b),
      CreateFederatedBundle = (\<lambda>b. Inl ''create refused: bundle already exists'')\<rparr>"

text \<open>A registration server that answers every call with an error naming the call.\<close>

definition refusing_server :: clients where
  "refusing_server =
     \<lparr>FetchFederatedBundle = (\<lambda>i. Inl ''fetch refused''),
      UpdateFederatedBundle = (\<lambda>b. Inl ''update refused''),
      CreateFederatedBundle = (\<lambda>b. Inl ''create refused'')\<rparr>"

text \<open>As \<open>known_bundle\<close>, but the update is refused.\<close>

definition read_only_server :: clients where
  "read_only_server =
     \<lparr>FetchFederatedBundle =
        (\<lambda>i. Inr \<lparr>DEPRECATEDSpiffeId = i, DEPRECATEDCaCerts = ''OLD''\<rparr>),
      UpdateFederatedBundle = (\<lambda>b. Inl ''update refused''),
      CreateFederatedBundle = (\<lambda>b. Inl ''create refused'')\<rparr>"

text \<open>The bundle \<open>run\<close> builds from the fixtures above.\<close>

definition demo_bundle :: FederatedBundle where
  "demo_bundle =
     \<lparr>DEPRECATEDSpiffeId = ''spiffe://otherdomain.test'', DEPRECATEDCaCerts = ''CERT''\<rparr>"

section \<open>Properties of the bundle-set command\<close>

lemma run_calls_cases:
  "calls (run h c e cl) = [] \<and> \<not> reaches_fetch h c e \<or>
   (\<exists>b. calls (run h c e cl) =
      [CallFetch (id_flag c),
       if isl (FetchFederatedBundle cl (id_flag c)) then CallCreate b else CallUpdate b])
     \<and> reaches_fetch h c e"
  by (auto simp: run_def reaches_fetch_def report_def failed_def Let_def split: sum.splits)

lemma run_applies:
  assumes "id_flag c \<noteq> []"
    and "NormalizeSpiffeID h (id_flag c) = Inr nid"
    and "loadParamData h (stdin e) (path_flag c) = Inr d"
    and "ParseCertificates h d = Inr certs"
    and "b = \<lparr>DEPRECATEDSpiffeId = nid, DEPRECATEDCaCerts = appendRaw [] certs\<rparr>"
  shows "case FetchFederatedBundle cl (id_flag c) of
           Inl _ \<Rightarrow>
             calls (run h c e cl) = [CallFetch (id_flag c), CallCreate b] \<and>
             err (run h c e cl) =
               (case CreateFederatedBundle cl b of
                  Inl er \<Rightarrow> Some er
                | Inr _ \<Rightarrow> Println e ''bundle set.'') \<and>
             printed (run h c e cl) =
               (case CreateFederatedBundle cl b of
                  Inl _ \<Rightarrow> []
                | Inr _ \<Rightarrow> [''bundle set.''])
         | Inr _ \<Rightarrow>
             calls (run h c e cl) = [CallFetch (id_flag c), CallUpdate b] \<and>
             err (run h c e cl) =
               (case UpdateFederatedBundle cl b of
                  Inl er \<Rightarrow> Some er
                | Inr _ \<Rightarrow> Println e ''bundle set.'') \<and>
             printed (run h c e cl) =
               (case UpdateFederatedBundle cl b of
                  Inl _ \<Rightarrow> []
                | Inr _ \<Rightarrow> [''bundle set.''])"
  using assms
  by (simp add: run_def report_def failed_def Let_def split: sum.splits)

text \<open>
  Claim C10. In \<open>bundle set\<close>, an empty \<open>-id\<close> flag fails with "id is required" and no
  registration API call is made. When the run reaches the fetch, the call list is the
  fetch followed by exactly one more call, which is the create when the fetch returned
  an error (whatever the error) and the update when it returned none; so over all
  runs, an update is called if and only if the fetch was reached and succeeded, and a
  create if and only if the fetch was reached and failed. The call that follows the
  fetch is the one \<open>run\<close> applies: with \<open>b\<close> the bundle made of the normalised id and
  the concatenated raw certificates, the error \<open>run\<close> returns and what it prints are
  those of the answer of \<open>CreateFederatedBundle\<close> on \<open>b\<close> when the fetch erred, and of
  the answer of \<open>UpdateFederatedBundle\<close> on \<open>b\<close> when it did not.
\<close>

theorem C10_create_or_update_by_fetch_error:
  "(id_flag c = [] \<longrightarrow>
      calls (run h c e cl) = [] \<and> err (run h c e cl) = Some ''id is required'') \<and>
   (reaches_fetch h c e \<longrightarrow>
      (\<exists>b. calls (run h c e cl) =
         [CallFetch (id_flag c),
          if isl (FetchFederatedBundle cl (id_flag c)) then CallCreate b else CallUpdate b])) \<and>
   ((\<exists>a \<in> set (calls (run h c e cl)). is_update a) \<longleftrightarrow>
      reaches_fetch h c e \<and> \<not> isl (FetchFederatedBundle cl (id_flag c))) \<and>
   ((\<exists>a \<in> set (calls (run h c e cl)). is_create a) \<longleftrightarrow>
      reaches_fetch h c e \<and> isl (FetchFederatedBundle cl (id_flag c))) \<and>
   (id_flag c \<noteq> [] \<and>
    NormalizeSpiffeID h (id_flag c) = Inr nid \<and>
    loadParamData h (stdin e) (path_flag c) = Inr d \<and>
    ParseCertificates h d = Inr certs \<and>
    b = \<lparr>DEPRECATEDSpiffeId = nid, DEPRECATEDCaCerts = appendRaw [] certs\<rparr> \<longrightarrow>
      (case FetchFederatedBundle cl (id_flag c) of
         Inl _ \<Rightarrow>
           calls (run h c e cl) = [CallFetch (id_flag c), CallCreate b] \<and>
           err (run h c e cl) =
             (case CreateFederatedBundle cl b of
                Inl er \<Rightarrow> Some er
              | Inr _ \<Rightarrow> Println e ''bundle set.'') \<and>
           printed (run h c e cl) =
             (case CreateFederatedBundle cl b of
                Inl _ \<Rightarrow> []
              | Inr _ \<Rightarrow> [''bundle set.''])
       | Inr _ \<Rightarrow>
           calls (run h c e cl) = [CallFetch (id_flag c), CallUpdate b] \<and>
           err (run h c e cl) =
             (case UpdateFederatedBundle cl b of
                Inl er \<Rightarrow> Some er
              | Inr _ \<Rightarrow> Println e ''bundle set.'') \<and>
           printed (run h c e cl) =
             (case UpdateFederatedBundle cl b of
                Inl _ \<Rightarrow> []
              | Inr _ \<Rightarrow> [''bundle set.''])))"
proof -
  have empty: "id_flag c = [] \<longrightarrow>
      calls (run h c e cl) = [] \<and> err (run h c e cl) = Some ''id is required''"
    by (simp add: run_def failed_def)
  have log: "(reaches_fetch h c e \<longrightarrow>
      (\<exists>b. calls (run h c e cl) =
         [CallFetch (id_flag c),
          if isl (FetchFederatedBundle cl (id_flag c)) then CallCreate b else CallUpdate b])) \<and>
   ((\<exists>a \<in> set (calls (run h c e cl)). is_update a) \<longleftrightarrow>
      reaches_fetch h c e \<and> \<not> isl (FetchFederatedBundle cl (id_flag c))) \<and>
   ((\<exists>a \<in> set (calls (run h c e cl)). is_create a) \<longleftrightarrow>
      reaches_fetch h c e \<and> isl (FetchFederatedBundle cl (id_flag c)))"
    using run_calls_cases [of h c e cl]
    by (auto simp: is_update_def is_create_def split: if_splits)
  from empty log run_applies [of c h nid e d certs b cl]
  show ?thesis by blast
qed

theorem C10_witness:
  "calls (run demo_helpers demo_cmd demo_env transport_failure) =
     [CallFetch ''spiffe://otherdomain.test'', CallCreate demo_bundle] \<and>
   err (run demo_helpers demo_cmd demo_env transport_failure) = None \<and>
   printed (run demo_helpers demo_cmd demo_env transport_failure) = [''bundle set.''] \<and>
   calls (run demo_helpers demo_cmd demo_env refusing_server) =
     [CallFetch ''spiffe://otherdomain.test'', CallCreate demo_bundle] \<and>
   err (run demo_helpers demo_cmd demo_env refusing_server) = Some ''create refused'' \<and>
   printed (run demo_helpers demo_cmd demo_env refusing_server) = [] \<and>
   calls (run demo_helpers demo_cmd demo_env known_bundle) =
     [CallFetch ''spiffe://otherdomain.test'', CallUpdate demo_bundle] \<and>
   err (run demo_helpers demo_cmd demo_env known_bundle) = None \<and>
   printed (run demo_helpers demo_cmd demo_env known_bundle) = [''bundle set.''] \<and>
   calls (run demo_helpers demo_cmd demo_env read_only_server) =
     [CallFetch ''spiffe://otherdomain.test'', CallUpdate demo_bundle] \<and>
   err (run demo_helpers demo_cmd demo_env read_only_server) = Some ''update refused'' \<and>
   printed (run demo_helpers demo_cmd demo_env read_only_server) = [] \<and>
   (\<exists>a \<in> set (calls (run demo_helpers demo_cmd demo_env transport_failure)). is_create a) \<and>
   \<not> (\<exists>a \<in> set (calls (run demo_helpers demo_cmd demo_env transport_failure)). is_update a) \<and>
   (\<exists>a \<in> set (calls (run demo_helpers demo_cmd demo_env known_bundle)). is_update a) \<and>
   \<not> (\<exists>a \<in> set (calls (run demo_helpers demo_cmd demo_env known_bundle)). is_create a) \<and>
   calls (run demo_helpers (demo_cmd\<lparr>id_flag := []\<rparr>) demo_env transport_failure) = [] \<and>
   err (run demo_helpers (demo_cmd\<lparr>id_flag := []\<rparr>) demo_env transport_failure)
     = Some ''id is required''"
proof -
  have r: "reaches_fetch demo_helpers demo_cmd demo_env"
    by (simp add: reaches_fetch_def demo_helpers_def demo_cmd_def demo_env_def)
  have pre: "id_flag demo_cmd \<noteq> [] \<and>
    NormalizeSpiffeID demo_helpers (id_flag demo_cmd) = Inr ''spiffe://otherdomain.test'' \<and>
    loadParamData demo_helpers (stdin demo_env) (path_flag demo_cmd) = Inr ''CERT'' \<and>
    ParseCertificates demo_helpers ''CERT'' = Inr [\<lparr>Raw = ''CERT''\<rparr>] \<and>
    demo_bundle = \<lparr>DEPRECATEDSpiffeId = ''spiffe://otherdomain.test'',
                   DEPRECATEDCaCerts = appendRaw [] [\<lparr>Raw = ''CERT''\<rparr>]\<rparr>"
    by (simp add: demo_helpers_def demo_cmd_def demo_env_def demo_bundle_def)
  have i: "id_flag (demo_cmd\<lparr>id_flag := []\<rparr>) = []" by simp
  have idc: "id_flag demo_cmd = ''spiffe://otherdomain.test''"
    by (simp add: demo_cmd_def)
  note C10 = C10_create_or_update_by_fetch_error
    [of demo_cmd demo_helpers demo_env _ "''spiffe://otherdomain.test''" "''CERT''"
        "[\<lparr>Raw = ''CERT''\<rparr>]" demo_bundle]
  have t: "calls (run demo_helpers demo_cmd demo_env transport_failure) =
     [CallFetch ''spiffe://otherdomain.test'', CallCreate demo_bundle] \<and>
   err (run demo_helpers demo_cmd demo_env transport_failure) = None \<and>
   printed (run demo_helpers demo_cmd demo_env transport_failure) = [''bundle set.''] \<and>
   (\<exists>a \<in> set (calls (run demo_helpers demo_cmd demo_env transport_failure)). is_create a) \<and>
   \<not> (\<exists>a \<in> set (calls (run demo_helpers demo_cmd demo_env transport_failure)). is_update a)"
    using C10 [of transport_failure] r pre
    by (auto simp: idc transport_failure_def demo_env_def is_create_def is_update_def)
  have f: "calls (run demo_helpers demo_cmd demo_env refusing_server) =
     [CallFetch ''spiffe://otherdomain.test'', CallCreate demo_bundle] \<and>
   err (run demo_helpers demo_cmd demo_env refusing_server) = Some ''create refused'' \<and>
   printed (run demo_helpers demo_cmd demo_env refusing_server) = []"
    using C10 [of refusing_server] r pre
    by (simp add: idc refusing_server_def demo_env_def)
  have k: "calls (run demo_helpers demo_cmd demo_env known_bundle) =
     [CallFetch ''spiffe://otherdomain.test'', CallUpdate demo_bundle] \<and>
   err (run demo_helpers demo_cmd demo_env known_bundle) = None \<and>
   printed (run demo_helpers demo_cmd demo_env known_bundle) = [''bundle set.''] \<and>
   (\<exists>a \<in> set (calls (run demo_helpers demo_cmd demo_env known_bundle)). is_update a) \<and>
   \<not> (\<exists>a \<in> set (calls (run demo_helpers demo_cmd demo_env known_bundle)). is_create a)"
    using C10 [of known_bundle] r pre
    by (auto simp: idc known_bundle_def demo_env_def is_create_def is_update_def)
  have o: "calls (run demo_helpers demo_cmd demo_env read_only_server) =
     [CallFetch ''spiffe://otherdomain.test'', CallUpdate demo_bundle] \<and>
   err (run demo_helpers demo_cmd demo_env read_only_server) = Some ''update refused'' \<and>
   printed (run demo_helpers demo_cmd demo_env read_only_server) = []"
    using C10 [of read_only_server] r pre
    by (simp add: idc read_only_server_def demo_env_def)
  from C10_create_or_update_by_fetch_error
         [of "demo_cmd\<lparr>id_flag := []\<rparr>" demo_helpers demo_env transport_failure] i
  have d: "calls (run demo_helpers (demo_cmd\<lparr>id_flag := []\<rparr>) demo_env transport_failure) = [] \<and>
     err (run demo_helpers (demo_cmd\<lparr>id_flag := []\<rparr>) demo_env transport_failure)
       = Some ''id is required''"
    by blast
  from t f k o d show ?thesis by blast
qed

end
